theory Spec2Isabelle
  imports Complex_Main
begin

section \<open>Errors\<close>

text \<open>
  The Python exceptions that the modelled code can raise, as values.
  \<open>AttributeError\<close> carries the name of the attribute that was looked up,
  \<open>CollaboratorError\<close> the message of a failure inside a collaborator
  (the display window), \<open>ValueError\<close> the message of the standard library.
\<close>

datatype error =
    AttributeError string
  | ValueError string
  | OSError string
  | CollaboratorError string

definition and_then :: "error + 'a \<Rightarrow> ('a \<Rightarrow> error + 'b) \<Rightarrow> error + 'b" where
  "and_then m f = (case m of Inl e \<Rightarrow> Inl e | Inr x \<Rightarrow> f x)"

section \<open>core/enums.py\<close>

text \<open>
  \<open>class TrialPhase(Enum)\<close>, with the ten members the source file declares, in
  the source's order.
\<close>

datatype TrialPhase =
    TRAINING_SHAPE
  | TRAINING_BLANK
  | INSTRUCTION_CLOSE_EYES
  | INSTRUCTION_WAIT
  | INSTRUCTION_STARTING
  | INSTRUCTION_READY
  | MEASUREMENT_BEEP
  | MEASUREMENT_SILENCE
  | INSTRUCTION_POST
  | INTER_TRIAL

text \<open>
  The attribute access \<open>TrialPhase.NAME\<close>: a member of the class when the class
  declares the name, and otherwise Python raises \<open>AttributeError\<close> (the value
  \<open>None\<close> here; the caller turns it into the error).
\<close>

definition TrialPhase_members :: "(string \<times> TrialPhase) list" where
  "TrialPhase_members =
    [(''TRAINING_SHAPE'', TRAINING_SHAPE),
     (''TRAINING_BLANK'', TRAINING_BLANK),
     (''INSTRUCTION_CLOSE_EYES'', INSTRUCTION_CLOSE_EYES),
     (''INSTRUCTION_WAIT'', INSTRUCTION_WAIT),
     (''INSTRUCTION_STARTING'', INSTRUCTION_STARTING),
     (''INSTRUCTION_READY'', INSTRUCTION_READY),
     (''MEASUREMENT_BEEP'', MEASUREMENT_BEEP),
     (''MEASUREMENT_SILENCE'', MEASUREMENT_SILENCE),
     (''INSTRUCTION_POST'', INSTRUCTION_POST),
     (''INTER_TRIAL'', INTER_TRIAL)]"

definition TrialPhase_getattr :: "string \<Rightarrow> TrialPhase option" where
  "TrialPhase_getattr name = map_of TrialPhase_members name"

section \<open>Settings read by the trial protocol\<close>

text \<open>
  \<open>TimingSettings\<close> and \<open>AudioSettings\<close> (module \<open>config.settings\<close>) with the
  fields that \<open>core/trial_protocol.py\<close> reads. Durations are Python floats
  (seconds), modelled as reals; the two counts are Python ints.
\<close>

record TimingSettings =
  training_shape_duration :: real
  training_blank_duration :: real
  training_repetitions :: int
  training_to_measurement_delay :: real
  recording_delay :: real
  imagination_duration :: real
  inter_imagination_delay :: real
  imagination_cycles :: int

record AudioSettings =
  start_imagine_duration :: real
  end_imagine_duration :: real

section \<open>core/trial\_protocol.py: construction\<close>

text \<open>
  The fields of a \<open>TrialProtocol\<close> object that \<open>__init__\<close> sets and nothing
  writes again: the settings and the frame counts. The abort flag \<open>_abort\<close>,
  which \<open>__init__\<close> clears and \<open>request_abort\<close> and \<open>run\<close> write, is kept with the
  state of a trial (\<open>run_state\<close> below).
\<close>

record TrialProtocol =
  timing :: TimingSettings
  audio_settings :: AudioSettings
  n_shape :: int
  n_blank :: int
  n_start_beep :: int
  n_end_beep :: int
  n_recording_delay :: int
  n_imagination :: int
  n_inter_delay :: int
  n_recording_frames :: int
  n_close_eyes_wait :: int
  n_starting_wait :: int
  n_train_to_meas_delay :: int

text \<open>
  What \<open>__init__\<close> sends to the module logger: the warning about a recording
  window below one frame (with its four arguments) and the summary of the eight
  frame counts.
\<close>

datatype log_record =
    RecordingFramesWarning int real real real
  | FrameCountsInfo int int int int int int int int

text \<open>
  \<open>__init__\<close>. The display window's \<open>duration_to_frames\<close> is a parameter
  \<open>d2f\<close>; it may fail, and its failure is the constructor's. The calls are made
  in the source's order. The result is the new object and the records logged.
\<close>

definition init ::
  "(real \<Rightarrow> error + int) \<Rightarrow> TimingSettings \<Rightarrow> AudioSettings
    \<Rightarrow> error + (TrialProtocol \<times> log_record list)" where
  "init d2f t a =
    and_then (d2f (training_shape_duration t)) (\<lambda>shape.
    and_then (d2f (training_blank_duration t)) (\<lambda>blank.
    and_then (d2f (start_imagine_duration a)) (\<lambda>start_beep.
    and_then (d2f (end_imagine_duration a)) (\<lambda>end_beep.
    and_then (d2f (recording_delay t)) (\<lambda>rec_delay.
    and_then (d2f (imagination_duration t)) (\<lambda>imagination.
    and_then (d2f (inter_imagination_delay t)) (\<lambda>inter_delay.
    (let recording = imagination - start_beep - rec_delay;
         warned = (if recording < 1
                   then [RecordingFramesWarning recording (imagination_duration t)
                           (start_imagine_duration a) (recording_delay t)]
                   else []);
         recording' = (if recording < 1 then 1 else recording)
     in
    and_then (d2f 5) (\<lambda>close_eyes_wait.
    and_then (d2f 2) (\<lambda>starting_wait.
    and_then (if training_to_measurement_delay t > 0
              then d2f (training_to_measurement_delay t) else Inr 0) (\<lambda>train_to_meas.
    Inr (\<lparr> timing = t, audio_settings = a,
           n_shape = shape, n_blank = blank,
           n_start_beep = start_beep, n_end_beep = end_beep,
           n_recording_delay = rec_delay, n_imagination = imagination,
           n_inter_delay = inter_delay, n_recording_frames = recording',
           n_close_eyes_wait = close_eyes_wait, n_starting_wait = starting_wait,
           n_train_to_meas_delay = train_to_meas \<rparr>,
         warned @ [FrameCountsInfo shape blank start_beep end_beep rec_delay
                     imagination recording' inter_delay]))))))))))))"

section \<open>data/event\_logger.py\<close>

text \<open>
  A cell of a CSV row: a float printed with a fixed number of decimals
  (\<open>f"{x:.6f}"\<close> is \<open>Fixed 6 x\<close>) or a string passed through.
\<close>

datatype cell = Fixed nat real | Text string

type_synonym row = "cell list"

definition HEADER :: "string list" where
  "HEADER = [''timestamp_s'', ''elapsed_ms'', ''event_type'',
             ''subject'', ''shape'', ''rep'', ''detail'']"

text \<open>
  The logger object. \<open>buffered\<close> holds the rows handed to the CSV writer that the
  file object has not yet flushed, \<open>flushed\<close> the rows that reached the file, in
  order; \<open>file_closed\<close> is the state of the file object.
\<close>

record EventLogger =
  start_time :: "real option"
  file_closed :: bool
  buffered :: "row list"
  flushed :: "row list"

definition writerow :: "row \<Rightarrow> EventLogger \<Rightarrow> error + EventLogger" where
  "writerow r L =
    (if file_closed L then Inl (ValueError ''I/O operation on closed file.'')
     else Inr (L\<lparr>buffered := buffered L @ [r]\<rparr>))"

definition flush :: "EventLogger \<Rightarrow> error + EventLogger" where
  "flush L =
    (if file_closed L then Inl (ValueError ''I/O operation on closed file.'')
     else Inr (L\<lparr>flushed := flushed L @ buffered L, buffered := []\<rparr>))"

text \<open>
  \<open>__init__\<close>: the file is opened for writing (truncated; the open may fail), the
  header row is written and flushed.
\<close>

definition EventLogger_init :: "bool \<Rightarrow> error + EventLogger" where
  "EventLogger_init can_open =
    (if \<not> can_open then Inl (OSError ''open'')
     else and_then
            (writerow (map Text HEADER)
               \<lparr> start_time = None, file_closed = False, buffered = [], flushed = [] \<rparr>)
            flush)"

definition start_clock :: "real \<Rightarrow> EventLogger \<Rightarrow> EventLogger" where
  "start_clock now L = L\<lparr>start_time := Some now\<rparr>"

text \<open>
  \<open>log\<close>, with the reading \<open>now\<close> of \<open>time.perf_counter()\<close> as a parameter.
  \<open>if self._start_time\<close> is false for \<open>None\<close> and for \<open>0.0\<close>.
\<close>

definition log_row :: "real \<Rightarrow> real option \<Rightarrow> string \<Rightarrow> string \<Rightarrow> string \<Rightarrow> string \<Rightarrow> string \<Rightarrow> row" where
  "log_row now start event_type subject shape rep detail =
    (let elapsed = (case start of
                      None \<Rightarrow> 0
                    | Some t0 \<Rightarrow> if t0 \<noteq> 0 then (now - t0) * 1000 else 0)
     in [Fixed 6 now, Fixed 3 elapsed, Text event_type,
         Text subject, Text shape, Text rep, Text detail])"

definition log_event ::
  "real \<Rightarrow> string \<Rightarrow> string \<Rightarrow> string \<Rightarrow> string \<Rightarrow> string \<Rightarrow> EventLogger
    \<Rightarrow> error + EventLogger" where
  "log_event now event_type subject shape rep detail L =
    and_then (writerow (log_row now (start_time L) event_type subject shape rep detail) L)
      flush"

definition close_logger :: "EventLogger \<Rightarrow> EventLogger" where
  "close_logger L =
    (if file_closed L then L
     else L\<lparr>flushed := flushed L @ buffered L, buffered := [], file_closed := True\<rparr>)"

section \<open>hardware/camera\_webcam.py\<close>

text \<open>
  The recording thread of a \<open>WebcamCamera\<close>, as far as the camera object can tell:
  created and about to open the video writer, inside the capture loop, or
  returned.
\<close>

datatype thread_status = Created | Capturing | Finished

text \<open>
  The fields of the camera object that recording reads or writes, and the
  messages the module logger received.
\<close>

datatype camera_message =
    FailedToOpenWriter
  | RecordingStarted
  | RecordingStopped nat

record WebcamCamera =
  recording :: bool
  record_thread :: "thread_status option"
  frames_captured :: nat
  stop_event :: bool
  messages :: "camera_message list"

definition WebcamCamera_init :: WebcamCamera where
  "WebcamCamera_init =
    \<lparr> recording = False, record_thread = None, frames_captured = 0,
      stop_event = False, messages = [] \<rparr>"

definition start_recording :: "WebcamCamera \<Rightarrow> WebcamCamera" where
  "start_recording c =
    (if recording c then c
     else c\<lparr>stop_event := False, frames_captured := 0, recording := True,
            record_thread := Some Created\<rparr>)"

text \<open>
  The steps of \<open>_record_loop\<close>, each taken by the recording thread. Opening the
  writer either fails (error logged, \<open>_recording\<close> cleared, the thread returns)
  or enters the loop; one pass of the loop with a frame read counts it; once the
  stop event is set the loop ends and the \<open>finally\<close> block releases the writer,
  clears \<open>_recording\<close> and logs the frame count.
\<close>

definition thread_open :: "bool \<Rightarrow> WebcamCamera \<Rightarrow> WebcamCamera" where
  "thread_open writer_opened c =
    (if record_thread c \<noteq> Some Created then c
     else if \<not> writer_opened
       then c\<lparr>messages := messages c @ [FailedToOpenWriter], recording := False,
              record_thread := Some Finished\<rparr>
       else c\<lparr>messages := messages c @ [RecordingStarted],
              record_thread := Some Capturing\<rparr>)"

definition thread_capture :: "WebcamCamera \<Rightarrow> WebcamCamera" where
  "thread_capture c =
    (if record_thread c = Some Capturing \<and> \<not> stop_event c
     then c\<lparr>frames_captured := frames_captured c + 1\<rparr> else c)"

definition thread_exit :: "WebcamCamera \<Rightarrow> WebcamCamera" where
  "thread_exit c =
    (if record_thread c = Some Capturing \<and> stop_event c
     then c\<lparr>recording := False,
            messages := messages c @ [RecordingStopped (frames_captured c)],
            record_thread := Some Finished\<rparr>
     else c)"

text \<open>
  \<open>Thread.join\<close> on the recording thread, called with the stop event set: the
  thread runs to its end (the writer opens or not, as \<open>writer_opened\<close> says, when
  it had not yet been opened), within the timeout.
\<close>

definition join :: "bool \<Rightarrow> WebcamCamera \<Rightarrow> WebcamCamera" where
  "join writer_opened c = thread_exit (thread_open writer_opened c)"

text \<open>
  \<open>stop_recording\<close>: sets the stop event, joins the thread when there is one and
  returns \<open>_frames_captured\<close>.
\<close>

definition stop_recording :: "bool \<Rightarrow> WebcamCamera \<Rightarrow> nat \<times> WebcamCamera" where
  "stop_recording writer_opened c =
    (let c1 = c\<lparr>stop_event := True\<rparr>;
         c2 = (if record_thread c1 \<noteq> None then join writer_opened c1 else c1)
     in (frames_captured c2, c2))"

definition is_recording :: "WebcamCamera \<Rightarrow> bool" where
  "is_recording c = recording c"

text \<open>
  The states the operations above keep the object in: \<open>_recording\<close> is set
  exactly while the recording thread has not returned.
\<close>

definition consistent :: "WebcamCamera \<Rightarrow> bool" where
  "consistent c =
    (recording c = (record_thread c = Some Created \<or> record_thread c = Some Capturing))"

text \<open>
  What happens to a camera object over time: calls of \<open>start_recording\<close> and
  \<open>stop_recording\<close> (with what the writer did, should the join meet a thread
  that has not opened it yet) and the steps of its recording thread.
\<close>

datatype camera_op =
    CallStart
  | CallStop bool
  | ThreadOpen bool
  | ThreadCapture
  | ThreadExit

fun camera_step :: "WebcamCamera \<Rightarrow> camera_op \<Rightarrow> WebcamCamera" where
  "camera_step c CallStart = start_recording c"
| "camera_step c (CallStop b) = snd (stop_recording b c)"
| "camera_step c (ThreadOpen b) = thread_open b c"
| "camera_step c ThreadCapture = thread_capture c"
| "camera_step c ThreadExit = thread_exit c"

definition camera_after :: "camera_op list \<Rightarrow> WebcamCamera" where
  "camera_after ops = foldl camera_step WebcamCamera_init ops"

text \<open>
  The frames written since the latest \<open>start_recording\<close> that began a recording,
  counted on the history alone: a \<open>start_recording\<close> on a camera that is not
  recording begins the count anew, a pass of the capture loop adds one.
\<close>

fun count_step :: "WebcamCamera \<times> nat \<Rightarrow> camera_op \<Rightarrow> WebcamCamera \<times> nat" where
  "count_step (c, n) op =
     (camera_step c op,
      case op of
        CallStart \<Rightarrow> if recording c then n else 0
      | ThreadCapture \<Rightarrow>
          if record_thread c = Some Capturing \<and> \<not> stop_event c then n + 1 else n
      | _ \<Rightarrow> n)"

definition frames_since_start :: "camera_op list \<Rightarrow> nat" where
  "frames_since_start ops = snd (foldl count_step (WebcamCamera_init, 0) ops)"

text \<open>What a caller or the log can tell of a camera object.\<close>

definition observed :: "WebcamCamera \<Rightarrow> bool \<times> nat \<times> thread_status option \<times> camera_message list" where
  "observed c = (recording c, frames_captured c, record_thread c, messages c)"

text \<open>
  A camera that is not recording and the same camera with its stop event set
  cannot be told apart, now or after anything that happens later.
\<close>

definition alike :: "WebcamCamera \<Rightarrow> WebcamCamera \<Rightarrow> bool" where
  "alike c1 c2 =
     (c1 = c2 \<or> (\<not> recording c2 \<and> consistent c2 \<and> (\<exists>x. c1 = c2\<lparr>stop_event := x\<rparr>)))"

section \<open>The audio cue player\<close>

text \<open>
  Modelled from the spec: the Audio Cue Player (\<open>audio/audio_manager.py\<close>, class
  \<open>AudioManager\<close>) is not among the source files. The spec gives it
  \<open>play(name)\<close> and \<open>stop(name)\<close> for named tone buffers and asks that \<open>stop\<close> on
  a beep that is not playing be a safe no-op. The player is the set of names
  that are sounding.
\<close>

record AudioManager =
  playing :: "string set"

definition audio_play :: "string \<Rightarrow> AudioManager \<Rightarrow> AudioManager" where
  "audio_play name a = a\<lparr>playing := insert name (playing a)\<rparr>"

definition audio_stop :: "string \<Rightarrow> AudioManager \<Rightarrow> AudioManager" where
  "audio_stop name a = a\<lparr>playing := playing a - {name}\<rparr>"

section \<open>core/trial\_protocol.py: one trial\<close>

subsection \<open>What a trial does to its collaborators\<close>

text \<open>
  The \<open>detail\<close> argument of an event-log call, before formatting:
  \<open>f"flash_{i+1}"\<close>, \<open>f"cycle_{n}"\<close>, \<open>f"cycle_{n} path={p}"\<close>,
  \<open>f"cycle_{n} frames={k}"\<close>, \<open>f"total_frames={k} cycles={c}"\<close>, or the default
  empty string.
\<close>

datatype detail =
    NoDetail
  | Flash int
  | Cycle int
  | CyclePath int string
  | CycleFrames int int
  | Totals int int

text \<open>
  The arguments of one \<open>EventLogger.log\<close> call: event type, subject, shape name,
  repetition (before \<open>str\<close>) and detail.
\<close>

datatype event =
  Event (event_type: string) (event_subject: string) (event_shape: string)
    (event_rep: int) (event_detail: detail)

text \<open>
  A callable with its arguments, as \<open>run\<close> passes them to \<open>call_on_flip\<close> or calls
  them itself: \<open>audio.play(name)\<close>, \<open>audio.stop(name)\<close>, \<open>events.log(...)\<close>.
\<close>

datatype call =
    AudioPlay string
  | AudioStop string
  | LogCall event

text \<open>
  One thing \<open>run\<close> does that takes time or is seen outside, in the order done.
  \<open>Flip cs\<close> is one \<open>win.flip()\<close>: the callbacks \<open>cs\<close> queued for it run in
  registration order, then the buffers swap. \<open>Direct c\<close> is a call made by
  \<open>run\<close> itself, outside a flip. \<open>StopRecording k\<close> is a \<open>stop_recording()\<close> that
  returned \<open>k\<close>. \<open>Phase\<close>, \<open>Stim\<close> and \<open>BeepProgress\<close> are the calls of the local
  helpers \<open>_phase\<close>, \<open>_stim\<close> and \<open>_beep\<close>, which hand their arguments to the
  caller's callback when one was given. The type \<open>'p\<close> is the type of the
  phase tags.
\<close>

datatype 'p action =
    Flip "call list"
  | DrawShape string
  | Direct call
  | PlayInstruction string
  | StartRecording string real
  | StopRecording int
  | Phase 'p real
  | Stim string
  | BeepProgress int int
  | Sleep real

text \<open>
  Everything \<open>run\<close> is given or meets: the class \<open>TrialPhase\<close> it looks its tags
  up in (by attribute name), its arguments, and what the collaborators answer.
  \<open>requests n\<close> says that another thread calls \<open>request_abort\<close> while action
  number \<open>n\<close> of the trial (counted from 0) is under way, or after it and before
  the next one. \<open>frames_captured_in c\<close> is what \<open>stop_recording\<close> returns in cycle
  \<open>c\<close>; \<open>fps\<close> is the camera's target frame rate, or 500 for a camera without
  settings.
\<close>

record 'p trial =
  TrialPhase_attr :: "string \<Rightarrow> 'p option"
  shape_name :: string
  subject :: string
  rep :: int
  video_path_factory :: "int \<Rightarrow> string"
  is_last_shape :: bool
  is_last_queue_item :: bool
  requests :: "nat \<Rightarrow> bool"
  frames_captured_in :: "int \<Rightarrow> int"
  instruction_duration :: "string \<Rightarrow> real"
  fps :: real
  frame_duration :: real

text \<open>
  The state of a running trial: the protocol's abort flag \<open>_abort\<close>, the window's
  queue of on-flip callbacks, what has been done so far, and the local
  variables of \<open>run\<close>.
\<close>

record 'p run_state =
  abort :: bool
  pending :: "call list"
  trace :: "'p action list"
  beep_counter :: int
  beep_stopped :: bool
  total_frames_recorded :: int

text \<open>\<open>request_abort\<close>: sets the flag, nothing else.\<close>

definition request_abort :: "'p run_state \<Rightarrow> 'p run_state" where
  "request_abort s = s\<lparr>abort := True\<rparr>"

datatype outcome = Next | Returned bool | Raised error

subsection \<open>Control flow\<close>

text \<open>
  Statements in sequence and \<open>for\<close> loops: a \<open>return\<close> or an exception ends the
  sequence or the loop and is its outcome.
\<close>

fun steps :: "('s \<Rightarrow> outcome \<times> 's) list \<Rightarrow> 's \<Rightarrow> outcome \<times> 's" where
  "steps [] s = (Next, s)"
| "steps (p # ps) s =
     (case p s of (out, s') \<Rightarrow> (case out of Next \<Rightarrow> steps ps s' | _ \<Rightarrow> (out, s')))"

fun for_each :: "'a list \<Rightarrow> ('a \<Rightarrow> 's \<Rightarrow> outcome \<times> 's) \<Rightarrow> 's \<Rightarrow> outcome \<times> 's" where
  "for_each [] body s = (Next, s)"
| "for_each (x # xs) body s =
     (case body x s of (out, s') \<Rightarrow>
        (case out of Next \<Rightarrow> for_each xs body s' | _ \<Rightarrow> (out, s')))"

text \<open>Python's \<open>range(a, b)\<close> on ints: empty when \<open>b \<le> a\<close>.\<close>

definition py_range :: "int \<Rightarrow> int \<Rightarrow> int list" where
  "py_range a b = map (\<lambda>k. a + int k) [0..<nat (b - a)]"

definition return :: "bool \<Rightarrow> 's \<Rightarrow> outcome \<times> 's" where
  "return b s = (Returned b, s)"

subsection \<open>Primitive statements\<close>

text \<open>
  An action is appended to the trace; a \<open>request_abort\<close> that arrives during it
  sets the flag.
\<close>

definition act :: "'p trial \<Rightarrow> 'p action \<Rightarrow> 'p run_state \<Rightarrow> 'p run_state" where
  "act e a s =
    (let s' = s\<lparr>trace := trace s @ [a]\<rparr>
     in if requests e (length (trace s)) then request_abort s' else s')"

definition do_act :: "'p trial \<Rightarrow> 'p action \<Rightarrow> 'p run_state \<Rightarrow> outcome \<times> 'p run_state" where
  "do_act e a s = (Next, act e a s)"

text \<open>\<open>if self._abort: <cleanup>; return False\<close>.\<close>

definition abort_check ::
  "'p trial \<Rightarrow> 'p action list \<Rightarrow> 'p run_state \<Rightarrow> outcome \<times> 'p run_state" where
  "abort_check e cleanup s =
    (if abort s then (Returned False, foldl (\<lambda>s' a. act e a s') s cleanup) else (Next, s))"

text \<open>
  Modelled from the spec: the Display Surface (\<open>stimulus/stimulus_window.py\<close> is
  not among the source files). \<open>call_on_flip\<close> queues a callable to run
  immediately before the next swap, \<open>flip\<close> runs the queued callables in
  registration order, swaps, and leaves the queue empty.
\<close>

definition call_on_flip :: "call \<Rightarrow> 'p run_state \<Rightarrow> outcome \<times> 'p run_state" where
  "call_on_flip c s = (Next, s\<lparr>pending := pending s @ [c]\<rparr>)"

definition flip :: "'p trial \<Rightarrow> 'p run_state \<Rightarrow> outcome \<times> 'p run_state" where
  "flip e s = (Next, (act e (Flip (pending s)) s)\<lparr>pending := []\<rparr>)"

text \<open>
  \<open>_phase(TrialPhase.NAME, remaining)\<close>: the attribute is looked up before the
  helper is called, and a name the class does not declare raises.
\<close>

definition phase :: "'p trial \<Rightarrow> string \<Rightarrow> real \<Rightarrow> 'p run_state \<Rightarrow> outcome \<times> 'p run_state" where
  "phase e name remaining s =
    (case TrialPhase_attr e name of
       None \<Rightarrow> (Raised (AttributeError name), s)
     | Some p \<Rightarrow> (Next, act e (Phase p remaining) s))"

definition stim :: "'p trial \<Rightarrow> string \<Rightarrow> 'p run_state \<Rightarrow> outcome \<times> 'p run_state" where
  "stim e state s = (Next, act e (Stim state) s)"

definition total_beeps :: "TrialProtocol \<Rightarrow> int" where
  "total_beeps p =
    training_repetitions (timing p) * 2 + imagination_cycles (timing p) * 2"

definition beep :: "TrialProtocol \<Rightarrow> 'p trial \<Rightarrow> 'p run_state \<Rightarrow> outcome \<times> 'p run_state" where
  "beep p e s =
    (let c = beep_counter s + 1
     in (Next, act e (BeepProgress c (total_beeps p)) (s\<lparr>beep_counter := c\<rparr>)))"

definition event_of :: "'p trial \<Rightarrow> string \<Rightarrow> detail \<Rightarrow> event" where
  "event_of e ty d = Event ty (subject e) (shape_name e) (rep e) d"

definition log_now :: "'p trial \<Rightarrow> string \<Rightarrow> detail \<Rightarrow> 'p run_state \<Rightarrow> outcome \<times> 'p run_state" where
  "log_now e ty d s = (Next, act e (Direct (LogCall (event_of e ty d))) s)"

definition log_on_flip :: "'p trial \<Rightarrow> string \<Rightarrow> detail \<Rightarrow> 'p run_state \<Rightarrow> outcome \<times> 'p run_state" where
  "log_on_flip e ty d = call_on_flip (LogCall (event_of e ty d))"

text \<open>
  \<open>for _ in range(n): if self._abort: <cleanup>; return False; self._win.flip()\<close>,
  the frame-counted wait that \<open>run\<close> writes out at each place.
\<close>

definition wait_frames ::
  "'p trial \<Rightarrow> int \<Rightarrow> 'p action list \<Rightarrow> 'p run_state \<Rightarrow> outcome \<times> 'p run_state" where
  "wait_frames e n cleanup =
    for_each (py_range 0 n) (\<lambda>_. steps [abort_check e cleanup, flip e])"

subsection \<open>The phases of \<open>run\<close>\<close>

text \<open>
  In what follows \<open>p\<close> is the protocol object (\<open>self\<close>) and \<open>e\<close> the trial.

  Lines 199 to 213: the shape stays visible for the frames 1 to \<open>n_shape - 1\<close>;
  at frame \<open>n_start_beep\<close> the stop of the start beep is queued for the flip;
  after the loop the beep is stopped directly if that never happened.
\<close>

definition hold_frame ::
  "TrialProtocol \<Rightarrow> 'p trial \<Rightarrow> int \<Rightarrow> 'p run_state \<Rightarrow> outcome \<times> 'p run_state" where
  "hold_frame p e f = steps [
     (\<lambda>s. abort_check e
             (if \<not> beep_stopped s then [Direct (AudioStop ''start_imagine'')] else []) s),
     (if f = n_start_beep p
      then steps [call_on_flip (AudioStop ''start_imagine''),
                  (\<lambda>s. (Next, s\<lparr>beep_stopped := True\<rparr>))]
      else steps []),
     do_act e (DrawShape (shape_name e)),
     flip e]"

definition hold_shape :: "TrialProtocol \<Rightarrow> 'p trial \<Rightarrow> 'p run_state \<Rightarrow> outcome \<times> 'p run_state" where
  "hold_shape p e = steps [
     (\<lambda>s. (Next, s\<lparr>beep_stopped := False\<rparr>)),
     for_each (py_range 1 (n_shape p)) (hold_frame p e),
     (\<lambda>s. if \<not> beep_stopped s
           then do_act e (Direct (AudioStop ''start_imagine'')) s
           else (Next, s))]"

text \<open>One pass of the training loop (lines 176 to 248), \<open>i\<close> the loop variable.\<close>

definition training_rep ::
  "TrialProtocol \<Rightarrow> 'p trial \<Rightarrow> int \<Rightarrow> 'p run_state \<Rightarrow> outcome \<times> 'p run_state" where
  "training_rep p e i = steps [
     abort_check e [],
     phase e ''TRAINING_SHAPE'' (training_shape_duration (timing p)),
     stim e (''shape:'' @ shape_name e),
     do_act e (DrawShape (shape_name e)),
     call_on_flip (AudioPlay ''start_imagine''),
     log_on_flip e ''TRAINING_START_BEEP'' (Flash (i + 1)),
     log_on_flip e ''TRAINING_SHAPE_ON'' (Flash (i + 1)),
     flip e,
     beep p e,
     hold_shape p e,
     phase e ''TRAINING_BLANK'' (end_imagine_duration (audio_settings p)),
     call_on_flip (AudioPlay ''end_imagine''),
     log_on_flip e ''TRAINING_END_BEEP'' (Flash (i + 1)),
     log_on_flip e ''TRAINING_SHAPE_OFF'' (Flash (i + 1)),
     flip e,
     beep p e,
     stim e ''blank'',
     wait_frames e (n_end_beep p - 1) [Direct (AudioStop ''end_imagine'')],
     call_on_flip (AudioStop ''end_imagine''),
     flip e,
     phase e ''TRAINING_BLANK'' (training_blank_duration (timing p)),
     wait_frames e (n_blank p - 1) []]"

text \<open>Lines 251 to 259: the optional delay between training and measurement.\<close>

definition train_to_meas_delay ::
  "TrialProtocol \<Rightarrow> 'p trial \<Rightarrow> 'p run_state \<Rightarrow> outcome \<times> 'p run_state" where
  "train_to_meas_delay p e =
    (if n_train_to_meas_delay p > 0
     then steps [
            abort_check e [],
            phase e ''INTER_TRIAL'' (training_to_measurement_delay (timing p)),
            stim e ''blank'',
            wait_frames e (n_train_to_meas_delay p) []]
     else steps [])"

text \<open>Lines 262 to 288: the two spoken instructions and their waits.\<close>

definition instruction_sequence ::
  "TrialProtocol \<Rightarrow> 'p trial \<Rightarrow> 'p run_state \<Rightarrow> outcome \<times> 'p run_state" where
  "instruction_sequence p e = steps [
     abort_check e [],
     phase e ''INSTRUCTION_CLOSE_EYES'' 5,
     stim e ''instruction:close_eyes'',
     do_act e (PlayInstruction ''close_your_eyes''),
     log_now e ''INSTRUCTION_CLOSE_EYES'' NoDetail,
     phase e ''INSTRUCTION_WAIT'' 5,
     wait_frames e (n_close_eyes_wait p) [],
     phase e ''INSTRUCTION_STARTING'' 2,
     stim e ''instruction:starting'',
     do_act e (PlayInstruction ''starting''),
     log_now e ''INSTRUCTION_STARTING'' NoDetail,
     phase e ''INSTRUCTION_READY'' 2,
     wait_frames e (n_starting_wait p) []]"

text \<open>
  One pass of the measurement loop (lines 305 to 404), \<open>i\<close> the loop variable, in
  three parts: up to the end of the recording delay, the recording, and from the
  end beep on.
\<close>

definition cycle_before_recording ::
  "TrialProtocol \<Rightarrow> 'p trial \<Rightarrow> int \<Rightarrow> 'p run_state \<Rightarrow> outcome \<times> 'p run_state" where
  "cycle_before_recording p e i = steps [
     abort_check e [],
     phase e ''MEASUREMENT_START_BEEP'' (start_imagine_duration (audio_settings p)),
     call_on_flip (AudioPlay ''start_imagine''),
     log_on_flip e ''IMAGINATION_START_BEEP'' (Cycle (i + 1)),
     flip e,
     beep p e,
     wait_frames e (n_start_beep p - 1) [Direct (AudioStop ''start_imagine'')],
     call_on_flip (AudioStop ''start_imagine''),
     flip e,
     phase e ''MEASUREMENT_RECORDING_DELAY'' (recording_delay (timing p)),
     wait_frames e (n_recording_delay p - 1) []]"

definition cycle_recording ::
  "TrialProtocol \<Rightarrow> 'p trial \<Rightarrow> int \<Rightarrow> 'p run_state \<Rightarrow> outcome \<times> 'p run_state" where
  "cycle_recording p e i = steps [
     do_act e (StartRecording (video_path_factory e (i + 1)) (fps e)),
     log_now e ''RECORDING_START'' (CyclePath (i + 1) (video_path_factory e (i + 1))),
     phase e ''MEASUREMENT_IMAGINING'' (of_int (n_recording_frames p) * frame_duration e),
     wait_frames e (n_recording_frames p) [StopRecording (frames_captured_in e (i + 1))],
     do_act e (StopRecording (frames_captured_in e (i + 1))),
     (\<lambda>s. (Next, s\<lparr>total_frames_recorded :=
                      total_frames_recorded s + frames_captured_in e (i + 1)\<rparr>)),
     log_now e ''RECORDING_STOP'' (CycleFrames (i + 1) (frames_captured_in e (i + 1)))]"

definition cycle_after_recording ::
  "TrialProtocol \<Rightarrow> 'p trial \<Rightarrow> int \<Rightarrow> 'p run_state \<Rightarrow> outcome \<times> 'p run_state" where
  "cycle_after_recording p e i = steps [
     phase e ''MEASUREMENT_END_BEEP'' (end_imagine_duration (audio_settings p)),
     call_on_flip (AudioPlay ''end_imagine''),
     log_on_flip e ''IMAGINATION_END_BEEP'' (Cycle (i + 1)),
     flip e,
     beep p e,
     wait_frames e (n_end_beep p - 1) [Direct (AudioStop ''end_imagine'')],
     call_on_flip (AudioStop ''end_imagine''),
     flip e,
     (if i < imagination_cycles (timing p) - 1
      then steps [
             phase e ''MEASUREMENT_INTER_DELAY'' (inter_imagination_delay (timing p)),
             wait_frames e (n_inter_delay p) []]
      else steps [])]"

definition cycle ::
  "TrialProtocol \<Rightarrow> 'p trial \<Rightarrow> int \<Rightarrow> 'p run_state \<Rightarrow> outcome \<times> 'p run_state" where
  "cycle p e i = steps [cycle_before_recording p e i, cycle_recording p e i,
                        cycle_after_recording p e i]"

text \<open>Lines 291 to 404: the measurement phase.\<close>

definition measurement ::
  "TrialProtocol \<Rightarrow> 'p trial \<Rightarrow> 'p run_state \<Rightarrow> outcome \<times> 'p run_state" where
  "measurement p e = steps [
     abort_check e [],
     stim e ''recording'',
     (\<lambda>s. (Next, s\<lparr>total_frames_recorded := 0\<rparr>)),
     for_each (py_range 0 (imagination_cycles (timing p))) (cycle p e)]"

text \<open>
  Lines 407 to 424: the spoken cue after the measurement and the wait that
  follows it, made by \<open>precise_sleep\<close> (a wall-clock wait of the time asked for).
\<close>

definition post_measurement :: "'p trial \<Rightarrow> 'p run_state \<Rightarrow> outcome \<times> 'p run_state" where
  "post_measurement e = steps [
     phase e ''INSTRUCTION_POST'' 5,
     (if \<not> is_last_shape e then steps [
        stim e ''instruction:open_your_eyes'',
        do_act e (PlayInstruction ''open_your_eyes''),
        log_now e ''INSTRUCTION_OPEN_EYES'' NoDetail,
        do_act e (Sleep 5)]
      else if is_last_queue_item e then steps [
        stim e ''instruction:experiment_completed'',
        do_act e (PlayInstruction ''experiment_completed''),
        log_now e ''INSTRUCTION_COMPLETED'' NoDetail,
        do_act e (Sleep (max 5 (instruction_duration e ''experiment_completed'' + 1)))]
      else steps [
        stim e ''instruction:next_participant'',
        do_act e (PlayInstruction ''next_participant_please''),
        log_now e ''INSTRUCTION_NEXT_PARTICIPANT'' NoDetail,
        do_act e (Sleep 5)])]"

text \<open>
  \<open>run\<close> (lines 146 to 431). The abort flag is cleared first. The result is
  \<open>Returned True\<close> on completion, \<open>Returned False\<close> on abort, \<open>Raised\<close> for an
  exception.
\<close>

definition run :: "TrialProtocol \<Rightarrow> 'p trial \<Rightarrow> 'p run_state \<Rightarrow> outcome \<times> 'p run_state" where
  "run p e = steps [
     (\<lambda>s. (Next, s\<lparr>abort := False\<rparr>)),
     (\<lambda>s. (Next, s\<lparr>beep_counter := 0\<rparr>)),
     log_now e ''TRIAL_START'' NoDetail,
     for_each (py_range 0 (training_repetitions (timing p))) (training_rep p e),
     train_to_meas_delay p e,
     instruction_sequence p e,
     measurement p e,
     post_measurement e,
     stim e ''idle'',
     (\<lambda>s. log_now e ''TRIAL_END''
             (Totals (total_frames_recorded s) (imagination_cycles (timing p))) s),
     return True]"

text \<open>The events that reached the event logger, in order.\<close>

fun events_of :: "'p action \<Rightarrow> event list" where
  "events_of (Flip cs) = concat (map (\<lambda>c. case c of LogCall ev \<Rightarrow> [ev] | _ \<Rightarrow> []) cs)"
| "events_of (Direct (LogCall ev)) = [ev]"
| "events_of _ = []"

definition logged :: "'p action list \<Rightarrow> event list" where
  "logged tr = concat (map events_of tr)"

section \<open>The course of a trial that is not interrupted\<close>

text \<open>
  What follows describes, phase by phase, the actions of a trial in which no
  abort check fires: a second description of \<open>run\<close>, written as lists, against
  which the definitions above are proved.

  \<open>phase_entry\<close> is the call of \<open>_phase\<close> with the tag of a declared name.
\<close>

definition phase_entry :: "'p trial \<Rightarrow> string \<Rightarrow> real \<Rightarrow> 'p action list" where
  "phase_entry e name remaining =
     (case TrialPhase_attr e name of None \<Rightarrow> [] | Some t \<Rightarrow> [Phase t remaining])"

text \<open>The frames after the onset frame of a training flash, and the safety stop.\<close>

definition hold_frames :: "string \<Rightarrow> int \<Rightarrow> int \<Rightarrow> 'p action list" where
  "hold_frames shp nshape nsb =
     concat (map (\<lambda>k. [DrawShape shp,
                         Flip (if 1 + int k = nsb then [AudioStop ''start_imagine''] else [])])
               [0..<nat (nshape - 1)])"

definition hold_trace :: "string \<Rightarrow> int \<Rightarrow> int \<Rightarrow> 'p action list" where
  "hold_trace shp nshape nsb =
     hold_frames shp nshape nsb
     @ (if 1 \<le> nsb \<and> nsb < nshape then [] else [Direct (AudioStop ''start_imagine'')])"

text \<open>
  Training repetition number \<open>k\<close> (from 0), entered with the beep counter at \<open>b\<close>.
\<close>

definition training_trace :: "TrialProtocol \<Rightarrow> 'p trial \<Rightarrow> int \<Rightarrow> nat \<Rightarrow> 'p action list" where
  "training_trace p e b k =
     phase_entry e ''TRAINING_SHAPE'' (training_shape_duration (timing p))
     @ [Stim (''shape:'' @ shape_name e),
        DrawShape (shape_name e),
        Flip [AudioPlay ''start_imagine'',
              LogCall (event_of e ''TRAINING_START_BEEP'' (Flash (int k + 1))),
              LogCall (event_of e ''TRAINING_SHAPE_ON'' (Flash (int k + 1)))],
        BeepProgress (b + 1) (total_beeps p)]
     @ hold_trace (shape_name e) (n_shape p) (n_start_beep p)
     @ phase_entry e ''TRAINING_BLANK'' (end_imagine_duration (audio_settings p))
     @ [Flip [AudioPlay ''end_imagine'',
              LogCall (event_of e ''TRAINING_END_BEEP'' (Flash (int k + 1))),
              LogCall (event_of e ''TRAINING_SHAPE_OFF'' (Flash (int k + 1)))],
        BeepProgress (b + 2) (total_beeps p),
        Stim ''blank'']
     @ replicate (nat (n_end_beep p - 1)) (Flip [])
     @ [Flip [AudioStop ''end_imagine'']]
     @ phase_entry e ''TRAINING_BLANK'' (training_blank_duration (timing p))
     @ replicate (nat (n_blank p - 1)) (Flip [])"



text \<open>
  Measurement cycle number \<open>k\<close> (from 0) up to the stop of its end beep, and the
  wait between two cycles.
\<close>

definition cycle_trace :: "TrialProtocol \<Rightarrow> 'p trial \<Rightarrow> int \<Rightarrow> nat \<Rightarrow> 'p action list" where
  "cycle_trace p e b k =
     phase_entry e ''MEASUREMENT_START_BEEP'' (start_imagine_duration (audio_settings p))
     @ [Flip [AudioPlay ''start_imagine'',
              LogCall (event_of e ''IMAGINATION_START_BEEP'' (Cycle (int k + 1)))],
        BeepProgress (b + 1) (total_beeps p)]
     @ replicate (nat (n_start_beep p - 1)) (Flip [])
     @ [Flip [AudioStop ''start_imagine'']]
     @ phase_entry e ''MEASUREMENT_RECORDING_DELAY'' (recording_delay (timing p))
     @ replicate (nat (n_recording_delay p - 1)) (Flip [])
     @ [StartRecording (video_path_factory e (int k + 1)) (fps e),
        Direct (LogCall (event_of e ''RECORDING_START''
                  (CyclePath (int k + 1) (video_path_factory e (int k + 1)))))]
     @ phase_entry e ''MEASUREMENT_IMAGINING''
         (of_int (n_recording_frames p) * frame_duration e)
     @ replicate (nat (n_recording_frames p)) (Flip [])
     @ [StopRecording (frames_captured_in e (int k + 1)),
        Direct (LogCall (event_of e ''RECORDING_STOP''
                  (CycleFrames (int k + 1) (frames_captured_in e (int k + 1)))))]
     @ phase_entry e ''MEASUREMENT_END_BEEP'' (end_imagine_duration (audio_settings p))
     @ [Flip [AudioPlay ''end_imagine'',
              LogCall (event_of e ''IMAGINATION_END_BEEP'' (Cycle (int k + 1)))],
        BeepProgress (b + 2) (total_beeps p)]
     @ replicate (nat (n_end_beep p - 1)) (Flip [])
     @ [Flip [AudioStop ''end_imagine'']]"

definition inter_delay_trace :: "TrialProtocol \<Rightarrow> 'p trial \<Rightarrow> 'p action list" where
  "inter_delay_trace p e =
     phase_entry e ''MEASUREMENT_INTER_DELAY'' (inter_imagination_delay (timing p))
     @ replicate (nat (n_inter_delay p)) (Flip [])"

definition cycle_and_delay_trace ::
  "TrialProtocol \<Rightarrow> 'p trial \<Rightarrow> int \<Rightarrow> nat \<Rightarrow> 'p action list" where
  "cycle_and_delay_trace p e b k =
     cycle_trace p e b k
     @ (if int k < imagination_cycles (timing p) - 1 then inter_delay_trace p e else [])"






text \<open>
  A property of the state that every statement keeps as long as it goes on to
  the next one, and that decides what the other outcomes can be.
\<close>

definition keeps ::
  "('s \<Rightarrow> bool) \<Rightarrow> (outcome \<Rightarrow> 's \<Rightarrow> bool) \<Rightarrow> ('s \<Rightarrow> outcome \<times> 's) \<Rightarrow> bool" where
  "keeps I Q p =
     (\<forall>s. I s \<longrightarrow> (case p s of (out, s') \<Rightarrow> if out = Next then I s' else Q out s'))"




text \<open>
  \<open>is_phase e name a\<close>: the action \<open>a\<close> is a call of \<open>_phase\<close> with the member that
  \<open>TrialPhase\<close> declares under \<open>name\<close>.
\<close>

definition is_phase :: "'p trial \<Rightarrow> string \<Rightarrow> 'p action \<Rightarrow> bool" where
  "is_phase e name a =
     (case a of Phase t _ \<Rightarrow> TrialPhase_attr e name = Some t | _ \<Rightarrow> False)"

text \<open>No statement but the last returns \<open>True\<close>.\<close>

definition no_true :: "('s \<Rightarrow> outcome \<times> 's) \<Rightarrow> bool" where
  "no_true p = keeps (\<lambda>_. True) (\<lambda>out _. out \<noteq> Returned True) p"

section \<open>utils/timing.py\<close>

text \<open>
  \<open>precise_sleep(duration)\<close>. The clock is read once for the target (\<open>t0\<close>) and
  then once per turn of the busy-wait loop (\<open>readings\<close>, in order; what
  \<open>time.sleep\<close> did shows in them). A non-positive duration returns at once;
  otherwise the call returns at the first reading that is not below the
  target, and is still waiting when the readings given run out before that.
\<close>

datatype sleep_result = ReturnedAtOnce | WokeAt real | StillWaiting

fun spin :: "real \<Rightarrow> real list \<Rightarrow> sleep_result" where
  "spin target [] = StillWaiting"
| "spin target (t # ts) = (if t < target then spin target ts else WokeAt t)"

definition precise_sleep :: "real \<Rightarrow> real \<Rightarrow> real list \<Rightarrow> sleep_result" where
  "precise_sleep duration t0 readings =
     (if duration \<le> 0 then ReturnedAtOnce else spin (t0 + duration) readings)"

section \<open>A small trial\<close>

text \<open>
  A display window whose refresh interval is one second: its
  \<open>duration_to_frames\<close> rounds the seconds to the nearest whole number.
\<close>

definition small_window :: "real \<Rightarrow> error + int" where
  "small_window x = Inr (round x)"

text \<open>
  Settings with short phases (three seconds of shape, a start beep of
  \<open>start_beep\<close> seconds, an end beep of \<open>end_beep\<close> seconds, five seconds of
  imagination), the protocol that \<open>__init__\<close> builds for them on that window
  (lemma \<open>small_protocol_init\<close> below), a trial on it, and the state in which
  a first trial starts.
\<close>

definition small_timing :: "int \<Rightarrow> int \<Rightarrow> TimingSettings" where
  "small_timing reps cycles =
     \<lparr> training_shape_duration = 3, training_blank_duration = 2,
       training_repetitions = reps, training_to_measurement_delay = 0,
       recording_delay = 1, imagination_duration = 5,
       inter_imagination_delay = 1, imagination_cycles = cycles \<rparr>"

definition small_audio :: "int \<Rightarrow> int \<Rightarrow> AudioSettings" where
  "small_audio start_beep end_beep =
     \<lparr> start_imagine_duration = of_int start_beep,
       end_imagine_duration = of_int end_beep \<rparr>"

definition small_protocol :: "int \<Rightarrow> int \<Rightarrow> int \<Rightarrow> int \<Rightarrow> TrialProtocol" where
  "small_protocol reps cycles start_beep end_beep =
     \<lparr> timing = small_timing reps cycles,
       audio_settings = small_audio start_beep end_beep,
       n_shape = 3, n_blank = 2, n_start_beep = start_beep, n_end_beep = end_beep,
       n_recording_delay = 1, n_imagination = 5, n_inter_delay = 1,
       n_recording_frames = (if 5 - start_beep - 1 < 1 then 1 else 5 - start_beep - 1),
       n_close_eyes_wait = 5, n_starting_wait = 2,
       n_train_to_meas_delay = 0 \<rparr>"

definition small_trial ::
  "(string \<Rightarrow> 'p option) \<Rightarrow> (nat \<Rightarrow> bool) \<Rightarrow> bool \<Rightarrow> bool \<Rightarrow> 'p trial" where
  "small_trial attr reqs last_shape last_item =
     \<lparr> TrialPhase_attr = attr, shape_name = ''circle'', subject = ''s01'', rep = 1,
       video_path_factory = (\<lambda>c. ''v''), is_last_shape = last_shape,
       is_last_queue_item = last_item, requests = reqs,
       frames_captured_in = (\<lambda>c. 7), instruction_duration = (\<lambda>n. 6),
       fps = 500, frame_duration = 1 \<rparr>"

definition start_state :: "'p run_state" where
  "start_state =
     \<lparr> abort = False, pending = [], trace = [], beep_counter = 0,
       beep_stopped = False, total_frames_recorded = 0 \<rparr>"

text \<open>No other thread ever asks for an abort.\<close>

definition never :: "nat \<Rightarrow> bool" where
  "never n = False"


text \<open>How often the inter-imagination delay was entered.\<close>

definition inter_delays :: "'p trial \<Rightarrow> 'p action list \<Rightarrow> nat" where
  "inter_delays e tr = length (filter (is_phase e ''MEASUREMENT_INTER_DELAY'') tr)"

section \<open>The phase tags the spec lists\<close>




text \<open>
  No request for an abort arrives from action number \<open>n0\<close> on, and a statement
  that, begun with the flag clear after \<open>n0\<close> actions, does not return \<open>False\<close>.
\<close>

definition quiet :: "'p trial \<Rightarrow> nat \<Rightarrow> bool" where
  "quiet e n0 = (\<forall>n\<ge>n0. \<not> requests e n)"

definition no_false ::
  "'p trial \<Rightarrow> nat \<Rightarrow> ('p run_state \<Rightarrow> outcome \<times> 'p run_state) \<Rightarrow> bool" where
  "no_false e n0 q =
     keeps (\<lambda>s. \<not> abort s \<and> n0 \<le> length (trace s)) (\<lambda>out _. out \<noteq> Returned False) q"


section \<open>Construction: the recording window\<close>

lemma and_then_Inr [simp]: "and_then (Inr x) f = f x"
  by (simp add: and_then_def)

lemma and_then_Inl [simp]: "and_then (Inl e) f = Inl e"
  by (simp add: and_then_def)

lemma small_protocol_init:
  "\<exists>logs. init small_window (small_timing reps cycles) (small_audio start_beep end_beep)
     = Inr (small_protocol reps cycles start_beep end_beep, logs)"
  by (simp add: init_def small_window_def small_timing_def small_audio_def
      small_protocol_def Let_def)

text \<open>
  Claim C3. With a display window that converts every duration (\<open>f\<close> is its
  conversion), construction succeeds for every timing and audio settings; the
  recording window is imagination minus start beep minus recording delay when
  that is positive and exactly 1 otherwise, and the warning is logged exactly
  in the second case.
\<close>

theorem init_recording_frames:
  fixes f :: "real \<Rightarrow> int"
  defines "d \<equiv> \<lambda>t a. f (imagination_duration t) - f (start_imagine_duration a)
                        - f (recording_delay t)"
  shows "\<exists>p logs. init (\<lambda>x. Inr (f x)) t a = Inr (p, logs)
           \<and> n_recording_frames p = (if 0 < d t a then d t a else 1)
           \<and> n_imagination p = f (imagination_duration t)
           \<and> n_start_beep p = f (start_imagine_duration a)
           \<and> n_recording_delay p = f (recording_delay t)
           \<and> ((\<exists>w x y z. RecordingFramesWarning w x y z \<in> set logs) = (d t a < 1))"
  by (auto simp: init_def d_def Let_def)

section \<open>The event log\<close>

lemma EventLogger_init_header:
  "EventLogger_init True =
    Inr \<lparr> start_time = None, file_closed = False, buffered = [],
          flushed = [map Text HEADER] \<rparr>"
  by (simp add: EventLogger_init_def writerow_def flush_def)

lemma log_event_closed:
  "file_closed L \<Longrightarrow> log_event now e su sh rp de L
     = Inl (ValueError ''I/O operation on closed file.'')"
  by (simp add: log_event_def writerow_def)

text \<open>
  Claim C9, as the code has it. A call of \<open>log\<close> on a logger that has not been
  closed hands one row to the writer and flushes within the call: nothing stays
  buffered, the rows already written are kept in front, and the new row is
  the last one in the file. The row has seven cells, one under each column of
  the header and in the header's order: the clock reading with six decimals,
  the milliseconds since \<open>start_clock\<close> with three (0 when the clock was never
  started or was started at reading 0), then the five arguments as given.
\<close>

theorem log_event_appends_one_flushed_row:
  assumes "\<not> file_closed L"
  shows "log_event now e su sh rp de L =
           Inr (L\<lparr>buffered := [],
                  flushed := flushed L @ buffered L @
                    [[Fixed 6 now,
                      Fixed 3 (case start_time L of
                                 None \<Rightarrow> 0
                               | Some t0 \<Rightarrow> if t0 \<noteq> 0 then (now - t0) * 1000 else 0),
                      Text e, Text su, Text sh, Text rp, Text de]]\<rparr>)
       \<and> zip HEADER (log_row now (start_time L) e su sh rp de) =
           [(''timestamp_s'', Fixed 6 now),
            (''elapsed_ms'',
               Fixed 3 (case start_time L of
                          None \<Rightarrow> 0
                        | Some t0 \<Rightarrow> if t0 \<noteq> 0 then (now - t0) * 1000 else 0)),
            (''event_type'', Text e), (''subject'', Text su), (''shape'', Text sh),
            (''rep'', Text rp), (''detail'', Text de)]"
  using assms
  by (simp add: log_event_def writerow_def flush_def log_row_def HEADER_def Let_def)

theorem log_event_appends_one_flushed_row_witness:
  "EventLogger_init True =
     Inr \<lparr> start_time = None, file_closed = False, buffered = [],
           flushed = [map Text HEADER] \<rparr>
   \<and> \<not> file_closed (start_clock 10
         \<lparr> start_time = None, file_closed = False, buffered = [],
           flushed = [map Text HEADER] \<rparr>)
   \<and> log_event 12 ''TRIAL_START'' ''s01'' ''circle'' ''1'' ''''
        (start_clock 10
          \<lparr> start_time = None, file_closed = False, buffered = [],
            flushed = [map Text HEADER] \<rparr>)
      = Inr \<lparr> start_time = Some 10, file_closed = False, buffered = [],
             flushed = [map Text HEADER,
               [Fixed 6 12, Fixed 3 2000, Text ''TRIAL_START'', Text ''s01'',
                Text ''circle'', Text ''1'', Text '''']] \<rparr>"
proof -
  let ?L = "start_clock 10
         \<lparr> start_time = None, file_closed = False, buffered = [],
           flushed = [map Text HEADER] \<rparr>"
  have o: "\<not> file_closed ?L" by (simp add: start_clock_def)
  from log_event_appends_one_flushed_row [OF o, of 12 "''TRIAL_START''" "''s01''"
      "''circle''" "''1''" "''''"]
  show ?thesis
    using EventLogger_init_header by (simp add: start_clock_def)
qed

text \<open>
  The claim as worded, for every call, fails: \<open>close\<close> is public and \<open>log\<close> does
  not check the file, so a call after \<open>close\<close> raises \<open>ValueError\<close> and appends
  nothing.
\<close>

theorem log_event_after_close_counterexample:
  "EventLogger_init True =
     Inr \<lparr> start_time = None, file_closed = False, buffered = [],
           flushed = [map Text HEADER] \<rparr>
   \<and> log_event 12 ''TRIAL_START'' ''s01'' ''circle'' ''1'' ''''
        (close_logger \<lparr> start_time = None, file_closed = False, buffered = [],
           flushed = [map Text HEADER] \<rparr>)
      = Inl (ValueError ''I/O operation on closed file.'')"
  by (simp add: EventLogger_init_def writerow_def flush_def log_event_def close_logger_def)

section \<open>Stopping a camera that is not recording\<close>

lemma consistent_init: "consistent WebcamCamera_init"
  by (simp add: consistent_def WebcamCamera_init_def)

lemma consistent_start_recording: "consistent c \<Longrightarrow> consistent (start_recording c)"
  by (simp add: consistent_def start_recording_def)

lemma consistent_thread_open: "consistent c \<Longrightarrow> consistent (thread_open b c)"
  by (simp add: consistent_def thread_open_def)

lemma consistent_thread_capture: "consistent c \<Longrightarrow> consistent (thread_capture c)"
  by (simp add: consistent_def thread_capture_def)

lemma consistent_thread_exit: "consistent c \<Longrightarrow> consistent (thread_exit c)"
  by (simp add: consistent_def thread_exit_def)

lemma consistent_stop_recording: "consistent c \<Longrightarrow> consistent (snd (stop_recording b c))"
  by (auto simp: consistent_def stop_recording_def join_def thread_open_def thread_exit_def
      Let_def)

lemma stop_recording_stops: "consistent c \<Longrightarrow> \<not> recording (snd (stop_recording b c))"
  by (auto simp: consistent_def stop_recording_def join_def thread_open_def thread_exit_def
      Let_def)

lemma consistent_camera_step: "consistent c \<Longrightarrow> consistent (camera_step c op)"
  by (cases op)
    (simp_all add: consistent_start_recording consistent_stop_recording
      consistent_thread_open consistent_thread_capture consistent_thread_exit)

lemma consistent_foldl: "consistent c \<Longrightarrow> consistent (foldl camera_step c ops)"
  by (induction ops arbitrary: c) (simp_all add: consistent_camera_step)

lemma consistent_camera_after: "consistent (camera_after ops)"
  unfolding camera_after_def by (rule consistent_foldl [OF consistent_init])

lemma frames_captured_stop_recording:
  "frames_captured (snd (stop_recording b c)) = frames_captured c"
  by (simp add: stop_recording_def join_def thread_open_def thread_exit_def Let_def)

lemma count_step_counts:
  "count_step (c, frames_captured c) op
     = (camera_step c op, frames_captured (camera_step c op))"
  by (cases op)
    (simp_all add: frames_captured_stop_recording start_recording_def thread_open_def
      thread_capture_def thread_exit_def)

lemma foldl_count_step:
  "foldl count_step (c, frames_captured c) ops
     = (foldl camera_step c ops, frames_captured (foldl camera_step c ops))"
proof (induction ops arbitrary: c)
  case Nil
  show ?case by simp
next
  case (Cons op ops)
  show ?case
    using Cons.IH [of "camera_step c op"] count_step_counts [of c op] by simp
qed

lemma frames_since_start_counter: "frames_since_start ops = frames_captured (camera_after ops)"
  using foldl_count_step [of WebcamCamera_init ops]
  by (simp add: frames_since_start_def camera_after_def WebcamCamera_init_def)

lemma alike_camera_step: "alike c1 c2 \<Longrightarrow> alike (camera_step c1 op) (camera_step c2 op)"
  unfolding alike_def
  by (cases op)
    (auto simp: consistent_def start_recording_def stop_recording_def join_def
      thread_open_def thread_capture_def thread_exit_def Let_def)

lemma alike_foldl: "alike c1 c2 \<Longrightarrow> alike (foldl camera_step c1 ops) (foldl camera_step c2 ops)"
  by (induction ops arbitrary: c1 c2) (simp_all add: alike_camera_step)

lemma alike_observed: "alike c1 c2 \<Longrightarrow> observed c1 = observed c2"
  unfolding alike_def observed_def by auto

lemma alike_stop_result:
  "alike c1 c2 \<Longrightarrow> fst (stop_recording b c1) = fst (stop_recording b c2)"
  unfolding alike_def
  by (auto simp: consistent_def stop_recording_def join_def thread_open_def thread_exit_def
      Let_def)

text \<open>
  Claim C8, as the code has it. Take a camera after any history of calls and
  thread steps, not recording. Then \<open>stop_recording\<close> raises nothing and
  returns the number of frames written since the latest \<open>start_recording\<close> that
  began a recording (0 if there was none). It sends nothing to the log and
  leaves \<open>is_recording\<close>, the frame count, the thread and the log as they were;
  the only field it writes is the private stop event, and that leaves no
  trace: after whatever happens next the camera shows the same and
  \<open>stop_recording\<close> returns the same as if the call had not been made, and on
  a camera whose stop event is already set (one stopped before) the call
  changes nothing at all. Stopping a beep that is not playing leaves the audio
  player as it is.
\<close>

theorem stop_recording_not_recording:
  assumes "c = camera_after ops" and "\<not> is_recording c"
  shows "stop_recording b c = (frames_since_start ops, c\<lparr>stop_event := True\<rparr>)
       \<and> observed (snd (stop_recording b c)) = observed c
       \<and> observed (foldl camera_step (snd (stop_recording b c)) later)
           = observed (foldl camera_step c later)
       \<and> fst (stop_recording b' (foldl camera_step (snd (stop_recording b c)) later))
           = fst (stop_recording b' (foldl camera_step c later))
       \<and> (stop_event c \<longrightarrow> snd (stop_recording b c) = c)
       \<and> (name \<notin> playing a \<longrightarrow> audio_stop name a = a)"
proof -
  have con: "consistent c" using assms(1) consistent_camera_after by simp
  have nr: "\<not> recording c" using assms(2) by (simp add: is_recording_def)
  have st: "stop_recording b c = (frames_captured c, c\<lparr>stop_event := True\<rparr>)"
    using con nr
    by (auto simp: consistent_def stop_recording_def join_def thread_open_def
        thread_exit_def Let_def)
  have al: "alike (snd (stop_recording b c)) c"
    using con nr st by (auto simp: alike_def)
  have same: "stop_event c \<Longrightarrow> c\<lparr>stop_event := True\<rparr> = c" by simp
  show ?thesis
    using st frames_since_start_counter [of ops] assms(1)
      alike_observed [OF al] alike_observed [OF alike_foldl [OF al, of later]]
      alike_stop_result [OF alike_foldl [OF al, of later], of b'] same
    by (auto simp: audio_stop_def)
qed

theorem stop_recording_not_recording_witness:
  "\<not> is_recording (camera_after
       [CallStart, ThreadOpen True, ThreadCapture, ThreadCapture, ThreadCapture,
        CallStop True])
   \<and> stop_recording True (camera_after
       [CallStart, ThreadOpen True, ThreadCapture, ThreadCapture, ThreadCapture,
        CallStop True])
     = (3, \<lparr> recording = False, record_thread = Some Finished, frames_captured = 3,
            stop_event = True, messages = [RecordingStarted, RecordingStopped 3] \<rparr>)
   \<and> camera_after
       [CallStart, ThreadOpen True, ThreadCapture, ThreadCapture, ThreadCapture,
        CallStop True]
     = \<lparr> recording = False, record_thread = Some Finished, frames_captured = 3,
         stop_event = True, messages = [RecordingStarted, RecordingStopped 3] \<rparr>
   \<and> ''start_imagine'' \<notin> playing \<lparr>playing = {''end_imagine''}\<rparr>
   \<and> audio_stop ''start_imagine'' \<lparr>playing = {''end_imagine''}\<rparr>
     = \<lparr>playing = {''end_imagine''}\<rparr>"
proof -
  let ?ops = "[CallStart, ThreadOpen True, ThreadCapture, ThreadCapture, ThreadCapture,
        CallStop True]"
  have c: "camera_after ?ops
     = \<lparr> recording = False, record_thread = Some Finished, frames_captured = 3,
         stop_event = True, messages = [RecordingStarted, RecordingStopped 3] \<rparr>"
    by (simp add: camera_after_def WebcamCamera_init_def start_recording_def
        thread_open_def thread_capture_def stop_recording_def join_def thread_exit_def
        Let_def)
  have r: "\<not> is_recording (camera_after ?ops)"
    by (simp add: c is_recording_def)
  have f: "frames_since_start ?ops = 3"
    by (simp add: frames_since_start_def WebcamCamera_init_def start_recording_def
        thread_open_def thread_capture_def stop_recording_def join_def thread_exit_def
        Let_def)
  from stop_recording_not_recording [OF refl r, of True "[]" True "''start_imagine''"
      "\<lparr>playing = {''end_imagine''}\<rparr>"]
  show ?thesis
    using c r f by simp
qed

text \<open>
  The claim as the spec words it fails in what is returned. After a recording
  of three frames, a second \<open>start_recording\<close> whose writer fails to open leaves
  the camera not recording, and \<open>stop_recording\<close> then returns 0, not the three
  frames of the last completed recording.
\<close>

theorem stop_recording_return_counterexample:
  "fst (stop_recording True (camera_after
         [CallStart, ThreadOpen True, ThreadCapture, ThreadCapture, ThreadCapture])) = 3
   \<and> \<not> is_recording (camera_after
         [CallStart, ThreadOpen True, ThreadCapture, ThreadCapture, ThreadCapture,
          CallStop True, CallStart, ThreadOpen False])
   \<and> fst (stop_recording True (camera_after
         [CallStart, ThreadOpen True, ThreadCapture, ThreadCapture, ThreadCapture,
          CallStop True, CallStart, ThreadOpen False])) = 0"
  by (simp add: camera_after_def is_recording_def WebcamCamera_init_def stop_recording_def
      join_def thread_open_def thread_exit_def thread_capture_def start_recording_def Let_def)

section \<open>Reasoning about statements\<close>

lemma act_fields [simp]:
  "trace (act e a s) = trace s @ [a]"
  "pending (act e a s) = pending s"
  "beep_counter (act e a s) = beep_counter s"
  "beep_stopped (act e a s) = beep_stopped s"
  "total_frames_recorded (act e a s) = total_frames_recorded s"
  "abort (act e a s) = (abort s \<or> requests e (length (trace s)))"
  by (simp_all add: act_def request_abort_def Let_def)

lemma steps_Cons_Next [simp]:
  "(steps (p # ps) s = (Next, s')) = (\<exists>s1. p s = (Next, s1) \<and> steps ps s1 = (Next, s'))"
  by (auto split: prod.splits outcome.splits)

lemma steps_Nil_Next [simp]: "(steps [] s = (Next, s')) = (s' = s)"
  by auto



declare steps.simps(2) [simp del]

lemma prim_Next [simp]:
  "(do_act e a s = (Next, s')) = (s' = act e a s)"
  "(stim e st s = (Next, s')) = (s' = act e (Stim st) s)"
  "(log_now e ty d s = (Next, s')) = (s' = act e (Direct (LogCall (event_of e ty d))) s)"
  "(flip e s = (Next, s')) = (s' = (act e (Flip (pending s)) s)\<lparr>pending := []\<rparr>)"
  "(beep p e s = (Next, s')) =
     (s' = act e (BeepProgress (beep_counter s + 1) (total_beeps p))
             (s\<lparr>beep_counter := beep_counter s + 1\<rparr>))"
  "(call_on_flip c s = (Next, s')) = (s' = s\<lparr>pending := pending s @ [c]\<rparr>)"
  "(log_on_flip e ty d s = (Next, s')) = (s' = s\<lparr>pending := pending s @ [LogCall (event_of e ty d)]\<rparr>)"
  "(abort_check e cl s = (Next, s')) = (\<not> abort s \<and> s' = s)"
  by (auto simp: do_act_def stim_def log_now_def flip_def beep_def call_on_flip_def
      log_on_flip_def abort_check_def Let_def)

lemma phase_Next [simp]:
  "(phase e name r s = (Next, s')) =
     (\<exists>t. TrialPhase_attr e name = Some t \<and> s' = act e (Phase t r) s)"
  by (auto simp: phase_def split: option.splits)



section \<open>The phases, when they run to their end\<close>














section \<open>Outcomes\<close>

lemma keepsI:
  "(\<And>s out s'. I s \<Longrightarrow> p s = (out, s') \<Longrightarrow> (if out = Next then I s' else Q out s')) \<Longrightarrow> keeps I Q p"
  unfolding keeps_def by (auto split: prod.splits)

lemma keepsD:
  "keeps I Q p \<Longrightarrow> I s \<Longrightarrow> p s = (out, s') \<Longrightarrow> (if out = Next then I s' else Q out s')"
  unfolding keeps_def by (auto split: prod.splits)

lemma keeps_steps:
  "(\<And>q. q \<in> set ps \<Longrightarrow> keeps I Q q) \<Longrightarrow> keeps I Q (steps ps)"
proof (induction ps)
  case Nil
  show ?case by (rule keepsI) auto
next
  case (Cons q ps)
  have q: "keeps I Q q" and r: "keeps I Q (steps ps)" using Cons by auto
  show ?case
  proof (rule keepsI)
    fix s out s'
    assume I: "I s" and st: "steps (q # ps) s = (out, s')"
    obtain o1 s1 where q1: "q s = (o1, s1)" by (cases "q s")
    show "if out = Next then I s' else Q out s'"
    proof (cases "o1 = Next")
      case True
      with st q1 have "steps ps s1 = (out, s')" by (simp add: steps.simps(2))
      moreover from keepsD[OF q I q1] True have "I s1" by simp
      ultimately show ?thesis using keepsD[OF r] by blast
    next
      case False
      with st q1 have "out = o1" "s' = s1"
        by (auto simp: steps.simps(2) split: outcome.splits)
      with keepsD[OF q I q1] False show ?thesis by simp
    qed
  qed
qed

lemma keeps_for_each:
  "(\<And>x. x \<in> set xs \<Longrightarrow> keeps I Q (body x)) \<Longrightarrow> keeps I Q (for_each xs body)"
proof (induction xs)
  case Nil
  show ?case by (rule keepsI) auto
next
  case (Cons x xs)
  have q: "keeps I Q (body x)" and r: "keeps I Q (for_each xs body)" using Cons by auto
  show ?case
  proof (rule keepsI)
    fix s out s'
    assume I: "I s" and st: "for_each (x # xs) body s = (out, s')"
    obtain o1 s1 where q1: "body x s = (o1, s1)" by (cases "body x s")
    show "if out = Next then I s' else Q out s'"
    proof (cases "o1 = Next")
      case True
      with st q1 have "for_each xs body s1 = (out, s')" by simp
      moreover from keepsD[OF q I q1] True have "I s1" by simp
      ultimately show ?thesis using keepsD[OF r] by blast
    next
      case False
      with st q1 have "out = o1" "s' = s1"
        by (auto split: outcome.splits)
      with keepsD[OF q I q1] False show ?thesis by simp
    qed
  qed
qed

lemma keeps_if: "keeps I Q a \<Longrightarrow> keeps I Q b \<Longrightarrow> keeps I Q (if c then a else b)"
  by simp

lemma no_true_prims [simp]:
  "no_true (do_act e a)" "no_true (stim e st)" "no_true (log_now e ty d)" "no_true (flip e)"
  "no_true (beep p e)" "no_true (call_on_flip c)" "no_true (log_on_flip e ty d)"
  "no_true (abort_check e cl)" "no_true (phase e name r)"
  "no_true (\<lambda>s. (Next, f s))"
  "no_true (\<lambda>s. log_now e ty (g s) s)"
  "no_true (\<lambda>s. abort_check e (h s) s)"
  "no_true (\<lambda>s. if cond s then do_act e a s else (Next, s))"
  unfolding no_true_def
  by (rule keepsI; auto simp: do_act_def stim_def log_now_def flip_def beep_def call_on_flip_def
      log_on_flip_def abort_check_def phase_def Let_def split: option.splits if_splits)+

lemma no_true_steps [simp]: "list_all no_true ps \<Longrightarrow> no_true (steps ps)"
  unfolding no_true_def by (rule keeps_steps) (simp add: list_all_iff)

lemma no_true_for_each [simp]: "(\<And>x. no_true (body x)) \<Longrightarrow> no_true (for_each xs body)"
  unfolding no_true_def by (rule keeps_for_each)

lemma no_true_wait_frames [simp]: "no_true (wait_frames e n cl)"
  unfolding wait_frames_def by simp

lemma no_true_phases [simp]:
  "no_true (hold_frame p e f)"
  "no_true (hold_shape p e)"
  "no_true (training_rep p e i)"
  "no_true (train_to_meas_delay p e)"
  "no_true (instruction_sequence p e)"
  "no_true (cycle_before_recording p e i)"
  "no_true (cycle_recording p e i)"
  "no_true (cycle_after_recording p e i)"
  "no_true (post_measurement e)"
proof -
  show hf: "\<And>f. no_true (hold_frame p e f)" unfolding hold_frame_def by auto
  show "no_true (hold_shape p e)" unfolding hold_shape_def using hf by auto
  then show "no_true (training_rep p e i)" unfolding training_rep_def by auto
  show "no_true (train_to_meas_delay p e)" unfolding train_to_meas_delay_def by auto
  show "no_true (instruction_sequence p e)" unfolding instruction_sequence_def by auto
  show "no_true (cycle_before_recording p e i)" unfolding cycle_before_recording_def by auto
  show "no_true (cycle_recording p e i)" unfolding cycle_recording_def by auto
  show "no_true (cycle_after_recording p e i)" unfolding cycle_after_recording_def by auto
  show "no_true (post_measurement e)" unfolding post_measurement_def by auto
qed

lemma no_true_cycle [simp]: "no_true (cycle p e i)"
  unfolding cycle_def by auto

lemma no_true_measurement [simp]: "no_true (measurement p e)"
  unfolding measurement_def by auto


lemma steps_return_True [simp]: "(steps [return True] s = (Returned True, s')) = (s' = s)"
  by (auto simp: steps.simps(2) return_def)


section \<open>The events a completed trial logs\<close>

lemma logged_append [simp]: "logged (xs @ ys) = logged xs @ logged ys"
  by (simp add: logged_def)

lemma logged_Cons [simp]: "logged (a # xs) = events_of a @ logged xs"
  by (simp add: logged_def)

lemma logged_Nil [simp]: "logged [] = []"
  by (simp add: logged_def)

lemma logged_replicate_Flip [simp]: "logged (replicate n (Flip [])) = []"
  by (induction n) simp_all

lemma logged_phase_entry [simp]: "logged (phase_entry e name r) = []"
  by (simp add: phase_entry_def split: option.splits)

lemma logged_hold_frames [simp]: "logged (hold_frames shp n m) = []"
proof -
  have "logged (concat (map (\<lambda>k. [DrawShape shp,
          Flip (if 1 + int k = m then [AudioStop ''start_imagine''] else [])]) xs)) = []"
    for xs :: "nat list"
    by (induction xs) simp_all
  then show ?thesis unfolding hold_frames_def by blast
qed

lemma logged_hold_trace [simp]: "logged (hold_trace shp n m) = []"
  by (simp add: hold_trace_def)

lemma types_training [simp]:
  "map event_type (logged (training_trace p e b k)) =
     [''TRAINING_START_BEEP'', ''TRAINING_SHAPE_ON'', ''TRAINING_END_BEEP'', ''TRAINING_SHAPE_OFF'']"
  by (simp add: training_trace_def event_of_def)

lemma types_cycle [simp]:
  "map event_type (logged (cycle_and_delay_trace p e b k)) =
     [''IMAGINATION_START_BEEP'', ''RECORDING_START'', ''RECORDING_STOP'', ''IMAGINATION_END_BEEP'']"
  by (simp add: cycle_and_delay_trace_def cycle_trace_def inter_delay_trace_def event_of_def)






section \<open>The tags of the measurement phase\<close>

text \<open>
  Claim C1. The class \<open>TrialPhase\<close> of \<open>core/enums.py\<close> declares none of the five
  measurement tags that \<open>run\<close> refers to, so a trial with one measurement cycle
  raises \<open>AttributeError\<close> at the first of them, before the camera is started.
\<close>

theorem run_measurement_tag_undefined:
  "map TrialPhase_getattr
      [''MEASUREMENT_START_BEEP'', ''MEASUREMENT_RECORDING_DELAY'',
       ''MEASUREMENT_IMAGINING'', ''MEASUREMENT_END_BEEP'', ''MEASUREMENT_INTER_DELAY'']
     = [None, None, None, None, None]
   \<and> fst (run (small_protocol 1 1 1 2)
             (small_trial TrialPhase_getattr never False False) start_state)
     = Raised (AttributeError ''MEASUREMENT_START_BEEP'')"
  by code_simp

section \<open>The cue after the measurement\<close>

lemma spin_WokeAt: "spin target rs = WokeAt t \<Longrightarrow> target \<le> t"
  by (induction rs) (auto split: if_splits)

lemma spin_wakes: "\<exists>r\<in>set rs. target \<le> r \<Longrightarrow> \<exists>t. spin target rs = WokeAt t"
  by (induction rs) auto

text \<open>
  Claim C6. On the class \<open>TrialPhase\<close> of the source the phase after the
  measurement raises nothing and does five things in this order: it announces
  the phase \<open>INSTRUCTION_POST\<close>, shows and speaks one cue, logs its marker and
  sleeps. The cue is "open your eyes" when the shape is not the last one,
  "experiment completed" when the shape and the queue item are both the last,
  and "next participant please" otherwise. The sleep is of 5 seconds, and in
  the completion case of the larger of 5 seconds and the cue's duration plus
  one second; no frame is flipped. The sleep is \<open>precise_sleep\<close>, which reads
  the clock: it does not return at once, it returns only at a clock reading
  that is the time asked for (at least 5 seconds) after the first, and it does
  return at such a reading.
\<close>

theorem post_measurement_cue_and_wait:
  fixes e :: "TrialPhase trial"
  defines "cue \<equiv> if \<not> is_last_shape e then ''open_your_eyes''
                  else if is_last_queue_item e then ''experiment_completed''
                  else ''next_participant_please''"
    and "shown \<equiv> if \<not> is_last_shape e then ''instruction:open_your_eyes''
                  else if is_last_queue_item e then ''instruction:experiment_completed''
                  else ''instruction:next_participant''"
    and "marker \<equiv> if \<not> is_last_shape e then ''INSTRUCTION_OPEN_EYES''
                  else if is_last_queue_item e then ''INSTRUCTION_COMPLETED''
                  else ''INSTRUCTION_NEXT_PARTICIPANT''"
    and "w \<equiv> if is_last_shape e \<and> is_last_queue_item e
              then max 5 (instruction_duration e ''experiment_completed'' + 1) else 5"
  shows "fst (post_measurement (e\<lparr>TrialPhase_attr := TrialPhase_getattr\<rparr>) s) = Next
       \<and> trace (snd (post_measurement (e\<lparr>TrialPhase_attr := TrialPhase_getattr\<rparr>) s))
           = trace s @ [Phase INSTRUCTION_POST 5, Stim shown, PlayInstruction cue,
                Direct (LogCall (Event marker (subject e) (shape_name e) (rep e) NoDetail)),
                Sleep w]
       \<and> 5 \<le> w
       \<and> precise_sleep w t0 readings \<noteq> ReturnedAtOnce
       \<and> (precise_sleep w t0 readings = WokeAt t \<longrightarrow> t0 + w \<le> t)
       \<and> ((\<exists>r\<in>set readings. t0 + w \<le> r) \<longrightarrow> (\<exists>t. precise_sleep w t0 readings = WokeAt t))"
proof -
  have w5: "5 \<le> w" by (simp add: w_def)
  have a: "fst (post_measurement (e\<lparr>TrialPhase_attr := TrialPhase_getattr\<rparr>) s) = Next"
    by (simp add: post_measurement_def steps.simps phase_def TrialPhase_getattr_def
        TrialPhase_members_def stim_def do_act_def log_now_def)
  have b: "trace (snd (post_measurement (e\<lparr>TrialPhase_attr := TrialPhase_getattr\<rparr>) s))
           = trace s @ [Phase INSTRUCTION_POST 5, Stim shown, PlayInstruction cue,
                Direct (LogCall (Event marker (subject e) (shape_name e) (rep e) NoDetail)),
                Sleep w]"
    by (simp add: post_measurement_def steps.simps phase_def TrialPhase_getattr_def
        TrialPhase_members_def stim_def do_act_def log_now_def event_of_def
        cue_def shown_def marker_def w_def)
  have c: "precise_sleep w t0 readings \<noteq> ReturnedAtOnce"
  proof -
    have "spin x rs \<noteq> ReturnedAtOnce" for x rs by (induction rs) auto
    then show ?thesis using w5 by (simp add: precise_sleep_def)
  qed
  have d: "precise_sleep w t0 readings = WokeAt t \<longrightarrow> t0 + w \<le> t"
    using w5 spin_WokeAt[of "t0 + w" readings t] by (simp add: precise_sleep_def)
  have f: "(\<exists>r\<in>set readings. t0 + w \<le> r) \<longrightarrow> (\<exists>t. precise_sleep w t0 readings = WokeAt t)"
    using w5 spin_wakes[of readings "t0 + w"] by (simp add: precise_sleep_def)
  from a b w5 c d f show ?thesis by blast
qed

theorem post_measurement_cue_and_wait_witness:
  "trace (snd (post_measurement
      ((small_trial TrialPhase_getattr never True True)
         \<lparr>TrialPhase_attr := TrialPhase_getattr\<rparr>) start_state))
     = [Phase INSTRUCTION_POST 5, Stim ''instruction:experiment_completed'',
        PlayInstruction ''experiment_completed'',
        Direct (LogCall (Event ''INSTRUCTION_COMPLETED'' ''s01'' ''circle'' 1 NoDetail)),
        Sleep 7]
   \<and> precise_sleep 7 100 [103, 106, 108, 109] = WokeAt 108
   \<and> (100::real) + 7 \<le> 108"
proof -
  have s: "precise_sleep 7 100 [103, 106, 108, 109] = WokeAt 108"
    by (simp add: precise_sleep_def)
  from post_measurement_cue_and_wait
    [of "small_trial TrialPhase_getattr never True True" start_state 100
        "[103, 106, 108, 109]" 108]
  show ?thesis
    using s by (simp add: small_trial_def start_state_def)
qed

section \<open>The abort flag at entry\<close>

lemma no_false_prims [simp]:
  assumes "quiet e n0"
  shows "no_false e n0 (do_act e a)" "no_false e n0 (stim e st)"
    "no_false e n0 (log_now e ty d)" "no_false e n0 (flip e)"
    "no_false e n0 (beep p e)" "no_false e n0 (call_on_flip c)"
    "no_false e n0 (log_on_flip e ty d)"
    "no_false e n0 (abort_check e cl)" "no_false e n0 (phase e name r)"
    "no_false e n0 (return True)"
    "no_false e n0 (\<lambda>s. (Next, s\<lparr>abort := False\<rparr>))"
    "no_false e n0 (\<lambda>s. (Next, s\<lparr>beep_counter := bc\<rparr>))"
    "no_false e n0 (\<lambda>s. (Next, s\<lparr>beep_stopped := bs\<rparr>))"
    "no_false e n0 (\<lambda>s. (Next, s\<lparr>total_frames_recorded := g s\<rparr>))"
    "no_false e n0 (\<lambda>s. log_now e ty (h s) s)"
    "no_false e n0 (\<lambda>s. abort_check e (k s) s)"
    "no_false e n0 (\<lambda>s. if cond s then do_act e a s else (Next, s))"
proof -
  have q: "\<And>n. n0 \<le> n \<Longrightarrow> \<not> requests e n" using assms by (simp add: quiet_def)
  show "no_false e n0 (do_act e a)" "no_false e n0 (stim e st)"
    "no_false e n0 (log_now e ty d)" "no_false e n0 (flip e)"
    "no_false e n0 (beep p e)" "no_false e n0 (call_on_flip c)"
    "no_false e n0 (log_on_flip e ty d)"
    "no_false e n0 (abort_check e cl)" "no_false e n0 (phase e name r)"
    "no_false e n0 (return True)"
    "no_false e n0 (\<lambda>s. (Next, s\<lparr>abort := False\<rparr>))"
    "no_false e n0 (\<lambda>s. (Next, s\<lparr>beep_counter := bc\<rparr>))"
    "no_false e n0 (\<lambda>s. (Next, s\<lparr>beep_stopped := bs\<rparr>))"
    "no_false e n0 (\<lambda>s. (Next, s\<lparr>total_frames_recorded := g s\<rparr>))"
    "no_false e n0 (\<lambda>s. log_now e ty (h s) s)"
    "no_false e n0 (\<lambda>s. abort_check e (k s) s)"
    "no_false e n0 (\<lambda>s. if cond s then do_act e a s else (Next, s))"
    unfolding no_false_def
    by (rule keepsI; auto simp: q do_act_def stim_def log_now_def flip_def beep_def
        call_on_flip_def log_on_flip_def abort_check_def phase_def return_def Let_def
        split: option.splits if_splits)+
qed

lemma no_false_steps [simp]: "list_all (no_false e n0) ps \<Longrightarrow> no_false e n0 (steps ps)"
  unfolding no_false_def by (rule keeps_steps) (simp add: list_all_iff)

lemma no_false_for_each [simp]:
  "(\<And>x. no_false e n0 (body x)) \<Longrightarrow> no_false e n0 (for_each xs body)"
  unfolding no_false_def by (rule keeps_for_each)

lemma no_false_wait_frames [simp]: "quiet e n0 \<Longrightarrow> no_false e n0 (wait_frames e n cl)"
  unfolding wait_frames_def by simp

lemma no_false_phases:
  assumes q: "quiet e n0"
  shows "no_false e n0 (training_rep p e i)"
    "no_false e n0 (train_to_meas_delay p e)"
    "no_false e n0 (instruction_sequence p e)"
    "no_false e n0 (measurement p e)"
    "no_false e n0 (post_measurement e)"
proof -
  have hf: "\<And>f. no_false e n0 (hold_frame p e f)" unfolding hold_frame_def using q by auto
  have hs: "no_false e n0 (hold_shape p e)" unfolding hold_shape_def using q hf by auto
  show "no_false e n0 (training_rep p e i)" unfolding training_rep_def using q hs by auto
  show "no_false e n0 (train_to_meas_delay p e)" unfolding train_to_meas_delay_def
    using q by auto
  show "no_false e n0 (instruction_sequence p e)" unfolding instruction_sequence_def
    using q by auto
  have c1: "\<And>i. no_false e n0 (cycle_before_recording p e i)"
    unfolding cycle_before_recording_def using q by auto
  have c2: "\<And>i. no_false e n0 (cycle_recording p e i)"
    unfolding cycle_recording_def using q by auto
  have c3: "\<And>i. no_false e n0 (cycle_after_recording p e i)"
    unfolding cycle_after_recording_def using q by auto
  have c: "\<And>i. no_false e n0 (cycle p e i)" unfolding cycle_def using c1 c2 c3 by auto
  show "no_false e n0 (measurement p e)" unfolding measurement_def using q c by auto
  show "no_false e n0 (post_measurement e)" unfolding post_measurement_def using q by auto
qed

lemma run_after_reset:
  assumes "quiet e (length (trace s))" and "\<not> abort s"
  shows "fst (run p e s) \<noteq> Returned False"
proof -
  let ?n0 = "length (trace s)"
  note q = assms(1)
  have "no_false e ?n0 (run p e)"
    unfolding run_def using q no_false_phases[OF q] by auto
  from keepsD[OF this[unfolded no_false_def], of s "fst (run p e s)" "snd (run p e s)"] assms(2)
  show ?thesis by (auto split: if_splits)
qed

lemma run_request_abort: "run p e (request_abort s) = run p e s"
  by (simp add: run_def request_abort_def steps.simps(2))

lemma run_clears_flag: "run p e s = run p e (s\<lparr>abort := False\<rparr>)"
  by (simp add: run_def steps.simps(2))

text \<open>
  Claim C10. The first statement of \<open>run\<close> clears the flag, so a trial started
  after \<open>request_abort\<close> goes exactly as one started without it; and a trial
  returns \<open>False\<close> only when a request arrives during one of its own actions
  (or after it and before the next).
\<close>

theorem run_resets_abort:
  "run p e (request_abort s) = run p e s
   \<and> (fst (run p e s) = Returned False \<longrightarrow> (\<exists>n. length (trace s) \<le> n \<and> requests e n))"
proof -
  have "fst (run p e s) \<noteq> Returned False" if "\<not> (\<exists>n. length (trace s) \<le> n \<and> requests e n)"
  proof -
    from that have q: "quiet e (length (trace (s\<lparr>abort := False\<rparr>)))" by (simp add: quiet_def)
    from run_after_reset[OF q, of p] run_clears_flag[of p e s] show ?thesis by simp
  qed
  then show ?thesis using run_request_abort[of p e s] by blast
qed

theorem run_resets_abort_witness:
  "fst (run (small_protocol 1 0 1 2) (small_trial TrialPhase_getattr never False False)
          (request_abort start_state)) = Returned True
   \<and> fst (run (small_protocol 1 0 1 2)
          (small_trial TrialPhase_getattr (\<lambda>n. n = 2) False False)
          (request_abort start_state)) = Returned False
   \<and> (\<exists>n. length (trace (start_state :: TrialPhase run_state)) \<le> n \<and>
          requests (small_trial TrialPhase_getattr (\<lambda>n. n = 2) False False) n)"
proof -
  have a: "fst (run (small_protocol 1 0 1 2) (small_trial TrialPhase_getattr never False False)
          start_state) = Returned True" by code_simp
  have b: "fst (run (small_protocol 1 0 1 2)
          (small_trial TrialPhase_getattr (\<lambda>n. n = 2) False False)
          start_state) = Returned False" by code_simp
  from run_resets_abort[of "small_protocol 1 0 1 2"
      "small_trial TrialPhase_getattr never False False" start_state]
    run_resets_abort[of "small_protocol 1 0 1 2"
      "small_trial TrialPhase_getattr (\<lambda>n. n = 2) False False" start_state]
    a b
  show ?thesis by simp
qed

section \<open>Holding the shape\<close>





section \<open>The delay between two cycles\<close>

lemma inter_delays_simps [simp]:
  "inter_delays e [] = 0"
  "inter_delays e (xs @ ys) = inter_delays e xs + inter_delays e ys"
  "inter_delays e (Flip cs # xs) = inter_delays e xs"
  "inter_delays e (DrawShape n # xs) = inter_delays e xs"
  "inter_delays e (Direct c # xs) = inter_delays e xs"
  "inter_delays e (PlayInstruction n # xs) = inter_delays e xs"
  "inter_delays e (StartRecording n f # xs) = inter_delays e xs"
  "inter_delays e (StopRecording i # xs) = inter_delays e xs"
  "inter_delays e (Stim n # xs) = inter_delays e xs"
  "inter_delays e (BeepProgress i j # xs) = inter_delays e xs"
  "inter_delays e (Sleep r # xs) = inter_delays e xs"
  by (simp_all add: inter_delays_def is_phase_def)

lemma inter_delays_replicate [simp]: "inter_delays e (replicate n (Flip [])) = 0"
  by (induction n) simp_all



lemma inter_delays_hold_trace [simp]: "inter_delays e (hold_trace shp n m) = 0"
proof -
  have "inter_delays e (concat (map (\<lambda>k. [DrawShape shp,
          Flip (if 1 + int k = m then [AudioStop ''start_imagine''] else [])]) xs)) = 0"
    for xs :: "nat list"
    by (induction xs) simp_all
  then have "inter_delays e (hold_frames shp n m) = 0" unfolding hold_frames_def by blast
  then show ?thesis by (simp add: hold_trace_def)
qed














end
